theory Spec2Isabelle
  imports Main "HOL-Library.Sublist"
begin

section \<open>Python strings\<close>

text \<open>
  A Python \<open>str\<close> is modelled as a \<open>string\<close>, one \<open>char\<close> per code point, so the
  model covers the strings whose code points are below 256. The character classes below
  are Python's, restricted to that range: \<open>str.isspace\<close> (which is also what
  \<open>str.strip()\<close> and the pattern \<open>\s\<close> use), the decimal digits of the pattern
  \<open>\d\<close>, and \<open>str.lower\<close>.
\<close>

abbreviation NL :: char where
  "NL \<equiv> CHR 0x0A"

definition py_isspace :: "char \<Rightarrow> bool" where
  "py_isspace c = (c \<in> set [CHR 0x09, CHR 0x0A, CHR 0x0B, CHR 0x0C, CHR 0x0D,
     CHR 0x1C, CHR 0x1D, CHR 0x1E, CHR 0x1F, CHR 0x20, CHR 0x85, CHR 0xA0])"

definition py_isdigit :: "char \<Rightarrow> bool" where
  "py_isdigit c = (c \<in> set ''0123456789'')"

definition py_lower_char :: "char \<Rightarrow> char" where
  "py_lower_char c =
     (let n = (of_char c :: nat)
      in if (65 \<le> n \<and> n \<le> 90) \<or> (192 \<le> n \<and> n \<le> 222 \<and> n \<noteq> 215)
         then char_of (n + 32) else c)"

definition py_lower :: "string \<Rightarrow> string" where
  "py_lower s = map py_lower_char s"

definition py_lstrip :: "string \<Rightarrow> string" where
  "py_lstrip s = dropWhile py_isspace s"

definition py_rstrip :: "string \<Rightarrow> string" where
  "py_rstrip s = rev (dropWhile py_isspace (rev s))"

definition py_strip :: "string \<Rightarrow> string" where
  "py_strip s = py_lstrip (py_rstrip s)"

text \<open>\<open>sub in s\<close>: \<open>sub\<close> occurs in \<open>s\<close> as a contiguous run.\<close>

fun py_in :: "string \<Rightarrow> string \<Rightarrow> bool" where
  "py_in sub [] = (sub = [])"
| "py_in sub (c # cs) = (prefix sub (c # cs) \<or> py_in sub cs)"

text \<open>
  \<open>s.split(sep)\<close>: the pieces between the occurrences of \<open>sep\<close>, found from left to
  right without overlap. Python raises \<open>ValueError\<close> on an empty separator; the program
  passes only the literals \<open>'\n\n'\<close> and \<open>'\n'\<close>, and the model returns \<open>[s]\<close> there.
\<close>

definition cons_first :: "char \<Rightarrow> string list \<Rightarrow> string list" where
  "cons_first c pieces = (case pieces of [] \<Rightarrow> [[c]] | p # ps \<Rightarrow> (c # p) # ps)"

function py_split :: "string \<Rightarrow> string \<Rightarrow> string list" where
  "py_split sep s =
     (if sep = [] then [s]
      else if s = [] then [[]]
      else if prefix sep s then [] # py_split sep (drop (length sep) s)
      else cons_first (hd s) (py_split sep (tl s)))"
  by pat_completeness auto
termination
  by (relation "measure (\<lambda>(sep, s). length s)") auto

declare py_split.simps [simp del]

text \<open>
  \<open>s.replace(old, new)\<close>: every occurrence of \<open>old\<close>, found from left to right
  without overlap, becomes \<open>new\<close>. With an empty \<open>old\<close> Python puts \<open>new\<close> before
  every character and at the end.
\<close>

function py_replace :: "string \<Rightarrow> string \<Rightarrow> string \<Rightarrow> string" where
  "py_replace old new s =
     (if old = [] then new @ concat (map (\<lambda>c. c # new) s)
      else if s = [] then []
      else if prefix old s then new @ py_replace old new (drop (length old) s)
      else hd s # py_replace old new (tl s))"
  by pat_completeness auto
termination
  by (relation "measure (\<lambda>(old, new, s). length s)") auto

declare py_replace.simps [simp del]

text \<open>\<open>str(i)\<close> for a non-negative integer: its decimal digits.\<close>

definition digit_char :: "nat \<Rightarrow> char" where
  "digit_char d = ''0123456789'' ! d"

fun str_nat :: "nat \<Rightarrow> string" where
  "str_nat n = (if n < 10 then [digit_char n] else str_nat (n div 10) @ [digit_char (n mod 10)])"

declare str_nat.simps [simp del]

subsection \<open>The two regular expressions\<close>

text \<open>
  \<open>re.match(r'^\d+\.', line)\<close>: the line starts with one or more digits followed by a
  period. The greedy \<open>\d+\<close> takes every leading digit, and giving digits back cannot help,
  since the character after a shorter run is a digit and not a period.
\<close>

definition match_number_prefix :: "string \<Rightarrow> bool" where
  "match_number_prefix line =
     (case dropWhile py_isdigit line of
        [] \<Rightarrow> False
      | c # rest \<Rightarrow> takeWhile py_isdigit line \<noteq> [] \<and> c = CHR ''.'')"

text \<open>
  \<open>re.sub(r'^\d+\.\s*', '', criterion)\<close>: without the MULTILINE flag \<open>^\<close> matches at
  the start of the string only, so at most one match is removed: the digits, the
  period, and all the white space that follows.
\<close>

definition sub_number_prefix :: "string \<Rightarrow> string" where
  "sub_number_prefix criterion =
     (if match_number_prefix criterion
      then dropWhile py_isspace (tl (dropWhile py_isdigit criterion))
      else criterion)"

section \<open>Data model\<close>

text \<open>
  The pydantic models \<open>Ticket\<close> and \<open>RewrittenTicket\<close>, and the dictionary with the
  keys \<open>user_story\<close>, \<open>acceptance_criteria\<close> and \<open>technical_context\<close> that the parser
  and the fallback generator return. Field names shared by two records are written
  qualified (\<open>ticket.key\<close>, \<open>parsed_response.acceptance_criteria\<close>).
\<close>

record ticket =
  key :: string
  summary :: string
  description :: "string option"

record parsed_response =
  user_story :: string
  acceptance_criteria :: "string list"
  technical_context :: string

record rewritten_ticket =
  key :: string
  original_title :: string
  rewritten_title :: string
  rewritten_description :: string
  acceptance_criteria :: "string list"
  technical_context :: string

text \<open>The \<open>ticket_data\<close> dictionaries, and \<open>dict.get(key, default)\<close>.\<close>

type_synonym ticket_data = "string \<rightharpoonup> string"

definition dict_get :: "ticket_data \<Rightarrow> string \<Rightarrow> string \<Rightarrow> string" where
  "dict_get d k dflt = (case d k of None \<Rightarrow> dflt | Some v \<Rightarrow> v)"

section \<open>Response parser\<close>

datatype section_name = UserStory | AcceptanceCriteria | TechnicalContext

text \<open>
  The loop variables of \<open>_parse_ai_response\<close>: \<open>current_section\<close> (\<open>None\<close> at first),
  \<open>user_story\<close>, \<open>acceptance_criteria\<close> and \<open>technical_context\<close>.
\<close>

record parser_state =
  current_section :: "section_name option"
  story :: string
  criteria :: "string list"
  context_text :: string

definition initial_state :: parser_state where
  "initial_state = \<lparr>current_section = None, story = [], criteria = [], context_text = []\<rparr>"

text \<open>
  The inner loop over the lines of a block: each line is stripped, and kept when it
  starts with digits and a period.
\<close>

definition numbered_lines :: "string \<Rightarrow> string list" where
  "numbered_lines text = filter match_number_prefix (map py_strip (py_split [NL] text))"

text \<open>One iteration of the loop over the blocks.\<close>

definition parse_section :: "parser_state \<Rightarrow> string \<Rightarrow> parser_state" where
  "parse_section st raw =
     (let section = py_strip raw in
      if section = [] then st
      else if py_in ''USER STORY:'' section then
        st\<lparr>current_section := Some UserStory,
           story := py_strip (py_replace ''USER STORY:'' [] section)\<rparr>
      else if py_in ''ACCEPTANCE CRITERIA:'' section then
        st\<lparr>current_section := Some AcceptanceCriteria,
           criteria := criteria st @
             numbered_lines (py_strip (py_replace ''ACCEPTANCE CRITERIA:'' [] section))\<rparr>
      else if py_in ''TECHNICAL CONTEXT:'' section then
        st\<lparr>current_section := Some TechnicalContext,
           context_text := py_strip (py_replace ''TECHNICAL CONTEXT:'' [] section)\<rparr>
      else
        (case current_section st of
           Some UserStory \<Rightarrow> st\<lparr>story := story st @ '' '' @ section\<rparr>
         | Some AcceptanceCriteria \<Rightarrow> st\<lparr>criteria := criteria st @ numbered_lines section\<rparr>
         | Some TechnicalContext \<Rightarrow> st\<lparr>context_text := context_text st @ '' '' @ section\<rparr>
         | None \<Rightarrow> st))"

definition scan_sections :: "string \<Rightarrow> parser_state" where
  "scan_sections response_text = foldl parse_section initial_state (py_split [NL, NL] response_text)"

definition default_user_story :: string where
  "default_user_story = ''As a user, I want this issue resolved so that I can work efficiently.''"

definition default_criterion :: string where
  "default_criterion = ''The functionality should work as expected.''"

definition default_technical_context :: string where
  "default_technical_context =
     ''This ticket addresses a technical issue that impacts user experience.''"

text \<open>
  The second loop: the number prefix of every captured criterion is removed, and a
  criterion that is empty afterwards is dropped.
\<close>

definition format_criteria :: "string list \<Rightarrow> string list" where
  "format_criteria cs = filter (\<lambda>formatted. formatted \<noteq> []) (map sub_number_prefix cs)"

definition parse_ai_response :: "string \<Rightarrow> parsed_response" where
  "parse_ai_response response_text =
     (let st = scan_sections response_text;
          captured = (if criteria st = []
                      then [''1. The functionality should work as expected.'']
                      else criteria st);
          formatted_criteria = format_criteria captured
      in \<lparr>user_story = (if story st = [] then default_user_story else story st),
          acceptance_criteria =
            (if formatted_criteria = [] then [default_criterion] else formatted_criteria),
          technical_context =
            (if context_text st = [] then default_technical_context else context_text st)\<rparr>)"

section \<open>Fallback generator\<close>

definition performance_keywords :: "string list" where
  "performance_keywords =
     [''slow'', ''lag'', ''performance'', ''speed'', ''loading'', ''timeout'']"

definition is_performance_issue :: "string \<Rightarrow> string \<Rightarrow> bool" where
  "is_performance_issue summ desc =
     list_ex (\<lambda>keyword. py_in keyword summ \<or> py_in keyword desc) performance_keywords"

definition performance_response :: "string \<Rightarrow> parsed_response" where
  "performance_response summ =
     \<lparr>user_story = ''As a user, I want the '' @ summ @
        '' to respond quickly so that I can complete my tasks efficiently without frustration.'',
      acceptance_criteria =
        [''Page should load in under 2 seconds on standard connection speeds'',
         ''UI interactions (clicks, scrolls, inputs) should respond within 100ms'',
         ''All animations should run at 60fps without visual stuttering'',
         ''Performance should be consistent across supported browsers and devices''],
      technical_context = ''The '' @ summ @
        '' is experiencing performance issues that negatively impact user experience.'' @
        '' This could be due to inefficient code, excessive network requests,'' @
        '' unoptimized assets, or server-side bottlenecks.'' @
        '' Fixing this will improve user satisfaction and potentially increase conversion rates.''\<rparr>"

definition generic_response :: "string \<Rightarrow> parsed_response" where
  "generic_response summ =
     \<lparr>user_story = ''As a user, I want to '' @ summ @
        '' so that I can achieve my goals efficiently.'',
      acceptance_criteria =
        [''The functionality should work as expected in all supported browsers'',
         ''The implementation should meet all business requirements'',
         ''The solution should be thoroughly tested with automated tests'',
         ''The solution should maintain or improve current performance metrics''],
      technical_context =
        ''This ticket addresses a technical issue that impacts user experience and business goals.'' @
        '' Proper implementation will ensure system reliability and user satisfaction.''\<rparr>"

definition generate_better_fallback_response :: "ticket_data \<Rightarrow> parsed_response" where
  "generate_better_fallback_response ticket_data =
     (let summ = py_lower (dict_get ticket_data ''summary'' ''No Title'');
          desc = py_lower (dict_get ticket_data ''description'' [])
      in if is_performance_issue summ desc
         then performance_response summ
         else generic_response summ)"

section \<open>Prompt builder\<close>

text \<open>
  The three fixed parts of the f-string of \<open>_create_prompt\<close>: the text before the
  title, the text between the title and the description, and the instructions after
  the description.
\<close>

definition prompt_intro :: string where
  \<open>prompt_intro =
     [NL] @
     ''    You are an expert in agile development and writing proper user stori'' @
     ''es. Your task is to rewrite the following Jira ticket as a well-structur'' @
     ''ed user story with acceptance criteria. Focus on translating technical i'' @
     ''ssues into user-centric problems and solutions.'' @ [NL] @
     [NL] @
     ''    Ticket Title: ''\<close>

definition prompt_middle :: string where
  \<open>prompt_middle =
     [NL] @
     ''    '' @ [NL] @
     ''    Ticket Description:'' @ [NL] @
     ''    ''\<close>

definition prompt_instructions :: string where
  \<open>prompt_instructions =
     [NL] @
     ''    '' @ [NL] @
     ''    Analysis Instructions:'' @ [NL] @
     ''    1. For performance issues (like slow loading, lagging, timeouts):'' @ [NL] @
     ''       - Identify the specific user impact (frustration, abandoned trans'' @
     ''actions, etc.)'' @ [NL] @
     ''       - Specify measurable performance targets (e.g., "page should load'' @
     '' in under 2 seconds")'' @ [NL] @
     ''       - Include technical root causes when possible (e.g., "inefficient'' @
     '' database queries")'' @ [NL] @
     ''    '' @ [NL] @
     ''    2. For bug reports:'' @ [NL] @
     ''       - Clearly describe the expected vs. actual behavior'' @ [NL] @
     ''       - Specify the conditions under which the bug occurs'' @ [NL] @
     ''       - Include steps to reproduce when available'' @ [NL] @
     ''    '' @ [NL] @
     ''    3. For feature requests:'' @ [NL] @
     ''       - Focus on the business value and user benefit'' @ [NL] @
     ''       - Be specific about the success criteria'' @ [NL] @
     ''    '' @ [NL] @
     ''    Follow this exact format for your response:'' @ [NL] @
     ''    '' @ [NL] @
     ''    USER STORY:'' @ [NL] @
     ''    As a [specific user role], I want [specific goal related to the issu'' @
     ''e] so that [clear business benefit].'' @ [NL] @
     ''    '' @ [NL] @
     ''    ACCEPTANCE CRITERIA:'' @ [NL] @
     ''    1. [Specific measurable criterion with clear performance targets]'' @ [NL] @
     ''    2. [Another specific measurable criterion]'' @ [NL] @
     ''    3. [Additional criterion addressing edge cases or related functional'' @
     ''ity]'' @ [NL] @
     ''    ... (add more as needed)'' @ [NL] @
     ''    '' @ [NL] @
     ''    TECHNICAL CONTEXT:'' @ [NL] @
     ''    [Brief explanation of the technical issue, potential root causes, an'' @
     ''d why it matters to users and the business]'' @ [NL] @
     ''    ''\<close>

definition create_prompt :: "ticket_data \<Rightarrow> string" where
  "create_prompt ticket_data =
     prompt_intro @ dict_get ticket_data ''summary'' ''No Title'' @
     prompt_middle @ dict_get ticket_data ''description'' ''No Description'' @
     prompt_instructions"

section \<open>Rewrite orchestration\<close>

text \<open>
  The call \<open>model.generate_content(prompt)\<close> is outside the program. It either raises,
  or returns a response whose \<open>text\<close> is missing or \<open>None\<close> (\<open>Response None\<close>) or is a
  string (\<open>Response (Some text)\<close>). The model is a parameter of the orchestration: a
  function from its own state and the prompt to the result and its next state.
\<close>

datatype model_result = Raises | Response "string option"

type_synonym 'm generate_content = "'m \<Rightarrow> string \<Rightarrow> model_result \<times> 'm"

datatype http_error = HTTPException nat string

text \<open>
  The dictionary built for the prompt builder and for the fallback generator:
  \<open>{"summary": ticket.summary, "description": ticket.description or ""}\<close>.
\<close>

definition ticket_dict :: "ticket \<Rightarrow> ticket_data" where
  "ticket_dict t =
     [''summary'' \<mapsto> summary t,
      ''description'' \<mapsto> (case description t of None \<Rightarrow> [] | Some d \<Rightarrow> d)]"

text \<open>
  The parsed response of one ticket: the fallback when the call raised or the response
  has no text or an empty text, the parser's result otherwise.
\<close>

definition select_response :: "model_result \<Rightarrow> ticket \<Rightarrow> parsed_response" where
  "select_response r t =
     (case r of
        Raises \<Rightarrow> generate_better_fallback_response (ticket_dict t)
      | Response None \<Rightarrow> generate_better_fallback_response (ticket_dict t)
      | Response (Some generated_text) \<Rightarrow>
          if generated_text = [] then generate_better_fallback_response (ticket_dict t)
          else parse_ai_response generated_text)"

text \<open>
  The numbering loop, \<open>for i, criterion in enumerate(acceptance_criteria, 1)\<close>, with
  the list \<open>numbered_criteria\<close> it appends to.
\<close>

fun number_loop :: "string list \<Rightarrow> nat \<Rightarrow> string list \<Rightarrow> string list" where
  "number_loop numbered_criteria i [] = numbered_criteria"
| "number_loop numbered_criteria i (criterion # rest) =
     number_loop (numbered_criteria @ [str_nat i @ ''. '' @ sub_number_prefix criterion])
       (Suc i) rest"

definition number_criteria :: "string list \<Rightarrow> string list" where
  "number_criteria cs = number_loop [] 1 cs"

text \<open>
  The record appended for one ticket. The handler of the \<open>except\<close> branch repeats the
  statements of the \<open>try\<close> branch, so one definition serves both. The parsed response
  always holds a list of criteria, so the \<open>isinstance\<close> test is always true.
\<close>

definition assemble_ticket :: "ticket \<Rightarrow> parsed_response \<Rightarrow> rewritten_ticket" where
  "assemble_ticket t parsed =
     \<lparr>key = ticket.key t,
      original_title = summary t,
      rewritten_title = user_story parsed,
      rewritten_description = user_story parsed @ [NL, NL] @ parsed_response.technical_context parsed,
      acceptance_criteria = number_criteria (parsed_response.acceptance_criteria parsed),
      technical_context = parsed_response.technical_context parsed\<rparr>"

definition rewrite_ticket :: "model_result \<Rightarrow> ticket \<Rightarrow> rewritten_ticket" where
  "rewrite_ticket r t = assemble_ticket t (select_response r t)"

text \<open>The loop over the tickets, with the list \<open>rewritten_tickets\<close> it appends to.\<close>

fun rewrite_loop ::
  "'m generate_content \<Rightarrow> 'm \<Rightarrow> rewritten_ticket list \<Rightarrow> ticket list \<Rightarrow> rewritten_ticket list \<times> 'm"
where
  "rewrite_loop generate m rewritten_tickets [] = (rewritten_tickets, m)"
| "rewrite_loop generate m rewritten_tickets (t # ts) =
     (case generate m (create_prompt (ticket_dict t)) of
        (r, m') \<Rightarrow> rewrite_loop generate m' (rewritten_tickets @ [rewrite_ticket r t]) ts)"

definition rewrite_tickets ::
  "'m generate_content \<Rightarrow> 'm \<Rightarrow> ticket list \<Rightarrow> (http_error + rewritten_ticket list) \<times> 'm"
where
  "rewrite_tickets generate m tickets =
     (case rewrite_loop generate m [] tickets of
        (rewritten_tickets, m') \<Rightarrow>
          (if rewritten_tickets = []
           then Inl (HTTPException 500 ''Failed to generate any user stories'')
           else Inr rewritten_tickets, m'))"

text \<open>
  The results that the model returns to the successive calls of the loop, in the order
  of the tickets: an observation of the run, used to state what the loop does with the
  result of each call.
\<close>

fun model_results :: "'m generate_content \<Rightarrow> 'm \<Rightarrow> ticket list \<Rightarrow> model_result list" where
  "model_results generate m [] = []"
| "model_results generate m (t # ts) =
     (case generate m (create_prompt (ticket_dict t)) of
        (r, m') \<Rightarrow> r # model_results generate m' ts)"

section \<open>Tracker sync: the document of an update\<close>

text \<open>
  The nodes of the Atlassian Document Format that \<open>update_tickets\<close> builds: a text
  run, a paragraph, a heading with its level, a list item and a bulleted list.
\<close>

datatype adf =
    AdfText string
  | Paragraph "adf list"
  | Heading nat "adf list"
  | ListItem "adf list"
  | BulletList "adf list"

text \<open>The loop over \<open>description_paras\<close>, appending to \<open>adf_content\<close>.\<close>

fun add_paragraphs :: "adf list \<Rightarrow> string list \<Rightarrow> adf list" where
  "add_paragraphs adf_content [] = adf_content"
| "add_paragraphs adf_content (para # rest) =
     add_paragraphs
       (if py_strip para \<noteq> [] then adf_content @ [Paragraph [AdfText (py_strip para)]]
        else adf_content)
       rest"

text \<open>The loop over the criteria, appending to \<open>list_items\<close>.\<close>

fun add_list_items :: "adf list \<Rightarrow> string list \<Rightarrow> adf list" where
  "add_list_items list_items [] = list_items"
| "add_list_items list_items (criterion # rest) =
     add_list_items (list_items @ [ListItem [Paragraph [AdfText criterion]]]) rest"

definition build_adf_content :: "rewritten_ticket \<Rightarrow> adf list" where
  "build_adf_content t =
     (let adf_content = add_paragraphs [] (py_split [NL, NL] (rewritten_description t));
          adf_content = adf_content @ [Heading 2 [AdfText ''Acceptance Criteria'']];
          list_items = add_list_items [] (acceptance_criteria t)
      in adf_content @ [BulletList list_items])"

section \<open>An example run\<close>

text \<open>
  A model whose first call raises and whose later calls return a text with two numbered
  criteria, and two tickets: the concrete run at which the theorems below are
  instantiated.
\<close>

definition demo_model :: "nat generate_content" where
  "demo_model m prompt =
     (if m = 0 then Raises
      else Response (Some (''ACCEPTANCE CRITERIA:'' @ [NL] @ ''3. Foo'' @ [NL] @ ''7.   Bar'')),
      Suc m)"

definition demo_tickets :: "ticket list" where
  "demo_tickets =
     [\<lparr>ticket.key = ''K-1'', summary = ''Checkout page is very slow'', description = None\<rparr>,
      \<lparr>ticket.key = ''K-2'', summary = ''Add Dark Mode'', description = Some ''Night colours''\<rparr>]"

text \<open>A rewritten ticket with a description of two paragraphs and three criteria.\<close>

definition demo_rewritten :: rewritten_ticket where
  "demo_rewritten =
     \<lparr>key = ''K-3'', original_title = ''Export'', rewritten_title = ''As a user, I want exports.'',
      rewritten_description = ''As a user, I want exports.'' @ [NL, NL] @ ''Exports are missing.'',
      acceptance_criteria = [''1. CSV'', ''2. PDF'', ''3. Tested''],
      technical_context = ''Exports are missing.''\<rparr>"

section \<open>Model outputs of the three-section format\<close>

text \<open>
  The text of one block of a model output in the three-section format: not empty, no
  white space at either end, no blank line inside, and none of the three markers
  inside. Used to state what the parser returns on an output of that format.
\<close>

definition plain_block :: "string \<Rightarrow> bool" where
  "plain_block s =
     (s \<noteq> [] \<and> \<not> py_isspace (hd s) \<and> \<not> py_isspace (last s) \<and>
      \<not> py_in [NL, NL] s \<and>
      \<not> py_in ''USER STORY:'' s \<and>
      \<not> py_in ''ACCEPTANCE CRITERIA:'' s \<and>
      \<not> py_in ''TECHNICAL CONTEXT:'' s)"

definition three_section_output :: "string \<Rightarrow> string \<Rightarrow> string" where
  "three_section_output story_text context =
     ''USER STORY:'' @ [NL] @ story_text @ [NL, NL] @
     ''ACCEPTANCE CRITERIA:'' @ [NL] @ ''1. Foo'' @ [NL] @ ''2. Bar'' @ [NL, NL] @
     ''TECHNICAL CONTEXT:'' @ [NL] @ context"

section \<open>Properties of the response parser\<close>

lemma format_default_criterion:
  "format_criteria [''1. The functionality should work as expected.''] =
     [''The functionality should work as expected.'']"
  by (simp add: format_criteria_def sub_number_prefix_def match_number_prefix_def
      py_isdigit_def py_isspace_def)

lemma format_criteria_nonempty: "[] \<notin> set (format_criteria cs)"
  by (simp add: format_criteria_def)

text \<open>
  Claim C2. The response parser is a total function and returns a fully populated
  record for every input string. Its user story is the captured one, or the default
  sentence when nothing was captured; when no criterion was captured its criteria are
  the single default criterion, without a number; its technical context is the captured
  one, or the default sentence. The three fields are never empty, and no criterion
  is the empty string.
\<close>

theorem parse_ai_response_populated:
  "user_story (parse_ai_response s) =
     (if story (scan_sections s) = []
      then ''As a user, I want this issue resolved so that I can work efficiently.''
      else story (scan_sections s))
   \<and> (criteria (scan_sections s) = [] \<longrightarrow>
        parsed_response.acceptance_criteria (parse_ai_response s) =
          [''The functionality should work as expected.''])
   \<and> parsed_response.technical_context (parse_ai_response s) =
     (if context_text (scan_sections s) = []
      then ''This ticket addresses a technical issue that impacts user experience.''
      else context_text (scan_sections s))
   \<and> user_story (parse_ai_response s) \<noteq> []
   \<and> parsed_response.acceptance_criteria (parse_ai_response s) \<noteq> []
   \<and> [] \<notin> set (parsed_response.acceptance_criteria (parse_ai_response s))
   \<and> parsed_response.technical_context (parse_ai_response s) \<noteq> []"
  by (simp add: parse_ai_response_def Let_def format_default_criterion format_criteria_nonempty
      default_user_story_def default_criterion_def default_technical_context_def)

theorem parse_ai_response_populated_witness:
  "criteria (scan_sections ''TECHNICAL CONTEXT: slow query'') = []
   \<and> parse_ai_response ''TECHNICAL CONTEXT: slow query'' =
       \<lparr>user_story = ''As a user, I want this issue resolved so that I can work efficiently.'',
        acceptance_criteria = [''The functionality should work as expected.''],
        technical_context = ''slow query''\<rparr>"
proof -
  have scan: "scan_sections ''TECHNICAL CONTEXT: slow query'' =
      \<lparr>current_section = Some TechnicalContext, story = [], criteria = [],
       context_text = ''slow query''\<rparr>"
    by code_simp
  from parse_ai_response_populated [of "''TECHNICAL CONTEXT: slow query''"] scan
  show ?thesis
    by (cases "parse_ai_response ''TECHNICAL CONTEXT: slow query''") simp
qed

section \<open>Properties of the rewrite orchestration\<close>

lemma number_loop_append:
  "number_loop acc i cs = acc @ number_loop [] i cs"
proof (induction cs arbitrary: acc i)
  case Nil
  then show ?case by simp
next
  case (Cons c cs)
  show ?case
    using Cons.IH [of "acc @ [str_nat i @ ''. '' @ sub_number_prefix c]" "Suc i"]
      Cons.IH [of "[str_nat i @ ''. '' @ sub_number_prefix c]" "Suc i"]
    by simp
qed

lemma length_number_loop: "length (number_loop acc i cs) = length acc + length cs"
  by (induction cs arbitrary: acc i) auto

lemma nth_number_loop:
  "k < length cs \<Longrightarrow>
   number_loop acc i cs ! (length acc + k) = str_nat (i + k) @ ''. '' @ sub_number_prefix (cs ! k)"
proof (induction cs arbitrary: acc i k)
  case Nil
  then show ?case by simp
next
  case (Cons c cs)
  show ?case
  proof (cases k)
    case 0
    have "number_loop (acc @ [str_nat i @ ''. '' @ sub_number_prefix c]) (Suc i) cs ! length acc
          = (acc @ [str_nat i @ ''. '' @ sub_number_prefix c]) ! length acc"
      by (subst number_loop_append) (simp add: nth_append)
    with 0 show ?thesis by simp
  next
    case (Suc j)
    with Cons.prems have "j < length cs" by simp
    from Cons.IH [OF this, of "acc @ [str_nat i @ ''. '' @ sub_number_prefix c]" "Suc i"] Suc
    show ?thesis by simp
  qed
qed

lemma length_number_criteria: "length (number_criteria cs) = length cs"
  by (simp add: number_criteria_def length_number_loop)

lemma nth_number_criteria:
  "k < length cs \<Longrightarrow>
   number_criteria cs ! k = str_nat (Suc k) @ ''. '' @ sub_number_prefix (cs ! k)"
  using nth_number_loop [of k cs "[]" 1] by (simp add: number_criteria_def)

lemma rewrite_loop_results:
  "fst (rewrite_loop generate m acc ts) =
     acc @ map (\<lambda>(r, t). rewrite_ticket r t) (zip (model_results generate m ts) ts)"
  by (induction ts arbitrary: m acc) (auto split: prod.splits)

lemma length_model_results: "length (model_results generate m ts) = length ts"
  by (induction ts arbitrary: m) (auto split: prod.splits)

lemma rewrite_tickets_Inr:
  assumes "ts \<noteq> []"
  shows "fst (rewrite_tickets generate m ts) =
     Inr (map (\<lambda>(r, t). rewrite_ticket r t) (zip (model_results generate m ts) ts))"
proof -
  obtain out m' where loop: "rewrite_loop generate m [] ts = (out, m')"
    by (cases "rewrite_loop generate m [] ts")
  with rewrite_loop_results [of generate m "[]" ts]
  have out: "out = map (\<lambda>(r, t). rewrite_ticket r t) (zip (model_results generate m ts) ts)"
    by simp
  then have "length out = length ts" by (simp add: length_model_results)
  with assms have "out \<noteq> []" by auto
  with loop out show ?thesis by (simp add: rewrite_tickets_def)
qed

lemma rewrite_tickets_nth:
  assumes "rewrite_tickets generate m ts = (Inr out, m')"
  shows "length out = length ts"
    and "k < length ts \<Longrightarrow> out ! k = rewrite_ticket (model_results generate m ts ! k) (ts ! k)"
proof -
  have "ts \<noteq> []"
    using assms by (auto simp: rewrite_tickets_def)
  from rewrite_tickets_Inr [OF this, of generate m] assms
  have out: "out = map (\<lambda>(r, t). rewrite_ticket r t) (zip (model_results generate m ts) ts)"
    by simp
  show "length out = length ts" by (simp add: out length_model_results)
  show "k < length ts \<Longrightarrow> out ! k = rewrite_ticket (model_results generate m ts ! k) (ts ! k)"
    by (simp add: out length_model_results)
qed

lemma fallback_criteria_length:
  "length (parsed_response.acceptance_criteria (generate_better_fallback_response d)) = 4"
  by (simp add: generate_better_fallback_response_def Let_def performance_response_def
      generic_response_def)

lemma parse_criteria_nonempty:
  "parsed_response.acceptance_criteria (parse_ai_response s) \<noteq> []"
  by (simp add: parse_ai_response_def Let_def)

lemma select_response_criteria_nonempty:
  "parsed_response.acceptance_criteria (select_response r t) \<noteq> []"
proof -
  have "parsed_response.acceptance_criteria (generate_better_fallback_response d) \<noteq> []" for d
    using fallback_criteria_length [of d] by auto
  then show ?thesis
    by (simp add: select_response_def parse_criteria_nonempty
        split: model_result.split option.split)
qed

lemma demo_tickets_nonempty: "demo_tickets \<noteq> []"
  by (simp add: demo_tickets_def)

lemma demo_results:
  "model_results demo_model 0 demo_tickets =
     [Raises, Response (Some (''ACCEPTANCE CRITERIA:'' @ [NL] @ ''3. Foo'' @ [NL] @ ''7.   Bar''))]"
  by (simp add: demo_tickets_def demo_model_def)

lemma demo_run:
  obtains out m' where "rewrite_tickets demo_model 0 demo_tickets = (Inr out, m')"
    and "length out = 2"
proof -
  obtain res m' where run: "rewrite_tickets demo_model 0 demo_tickets = (res, m')"
    by (cases "rewrite_tickets demo_model 0 demo_tickets")
  with rewrite_tickets_Inr [OF demo_tickets_nonempty, of demo_model 0]
  obtain out where res: "res = Inr out" by simp
  from rewrite_tickets_nth(1) [OF run [unfolded res]] have "length out = 2"
    by (simp add: demo_tickets_def)
  with run res that show thesis by simp
qed


lemma demo_parsed_criteria:
  "parsed_response.acceptance_criteria
     (select_response (model_results demo_model 0 demo_tickets ! 1) (demo_tickets ! 1)) =
     [''Foo'', ''Bar'']"
  by code_simp

lemma demo_numbered:
  "str_nat (Suc 0) @ ''. '' @ sub_number_prefix ''Foo'' = ''1. Foo''"
  "str_nat (Suc 1) @ ''. '' @ sub_number_prefix ''Bar'' = ''2. Bar''"
  by code_simp+

text \<open>
  Claim C1. Every rewritten ticket that the orchestration returns has a non-empty list
  of acceptance criteria, as long as the list of its parsed response, and its element
  at position \<open>i\<close> (counted from 1) is the decimal \<open>i\<close>, a period and a space,
  followed by the criterion of the parsed response with its leading number prefix
  removed: the numbers run from 1 to the length, without gaps.
\<close>

theorem rewritten_criteria_numbered:
  assumes "rewrite_tickets generate m ts = (Inr out, m')" and "k < length out"
  shows "let parsed = select_response (model_results generate m ts ! k) (ts ! k);
             cs = parsed_response.acceptance_criteria parsed;
             numbered = acceptance_criteria (out ! k)
         in numbered \<noteq> [] \<and> length numbered = length cs \<and>
            (\<forall>i<length cs. numbered ! i = str_nat (Suc i) @ ''. '' @ sub_number_prefix (cs ! i))"
proof -
  define parsed where "parsed = select_response (model_results generate m ts ! k) (ts ! k)"
  define cs where "cs = parsed_response.acceptance_criteria parsed"
  from rewrite_tickets_nth [OF assms(1)] assms(2)
  have "out ! k = rewrite_ticket (model_results generate m ts ! k) (ts ! k)"
    by simp
  then have numbered: "acceptance_criteria (out ! k) = number_criteria cs"
    by (simp add: rewrite_ticket_def assemble_ticket_def parsed_def cs_def)
  have "cs \<noteq> []"
    unfolding cs_def parsed_def by (rule select_response_criteria_nonempty)
  moreover have "length (number_criteria cs) = length cs"
    by (rule length_number_criteria)
  ultimately have "number_criteria cs \<noteq> []"
    by (metis length_0_conv)
  with numbered show ?thesis
    unfolding Let_def parsed_def [symmetric] cs_def [symmetric]
    by (simp add: length_number_criteria nth_number_criteria)
qed

theorem rewritten_criteria_numbered_witness:
  "\<exists>out m'. rewrite_tickets demo_model 0 demo_tickets = (Inr out, m') \<and> 1 < length out \<and>
     acceptance_criteria (out ! 1) \<noteq> [] \<and>
     length (acceptance_criteria (out ! 1)) = 2 \<and>
     acceptance_criteria (out ! 1) ! 0 = ''1. Foo'' \<and>
     acceptance_criteria (out ! 1) ! 1 = ''2. Bar''"
proof -
  obtain out m' where run: "rewrite_tickets demo_model 0 demo_tickets = (Inr out, m')"
    and len: "length out = 2"
    by (rule demo_run)
  from len have k: "1 < length out" by simp
  note numbered = rewritten_criteria_numbered [OF run k, unfolded Let_def demo_parsed_criteria]
  from numbered have "acceptance_criteria (out ! 1) \<noteq> []"
    and "length (acceptance_criteria (out ! 1)) = 2"
    by simp_all
  moreover from numbered
  have nth: "i < 2 \<Longrightarrow> acceptance_criteria (out ! 1) ! i =
      str_nat (Suc i) @ ''. '' @ sub_number_prefix ([''Foo'', ''Bar''] ! i)" for i
    by simp
  from nth [of 0] have "acceptance_criteria (out ! 1) ! 0 = ''1. Foo''"
    using demo_numbered(1) by simp
  moreover from nth [of 1] have "acceptance_criteria (out ! 1) ! 1 = ''2. Bar''"
    using demo_numbered(2) by simp
  ultimately show ?thesis using run k by blast
qed

section \<open>Properties of the fallback generator\<close>

lemma py_in_iff: "py_in sub s \<longleftrightarrow> (\<exists>a b. s = a @ sub @ b)"
proof (induction s)
  case Nil
  then show ?case by auto
next
  case (Cons c cs)
  show ?case
  proof
    assume "py_in sub (c # cs)"
    then consider "prefix sub (c # cs)" | "py_in sub cs" by auto
    then show "\<exists>a b. c # cs = a @ sub @ b"
    proof cases
      case 1
      then obtain b where "c # cs = sub @ b" by (auto simp: prefix_def)
      then have "c # cs = [] @ sub @ b" by simp
      then show ?thesis by blast
    next
      case 2
      with Cons.IH obtain a b where "cs = a @ sub @ b" by blast
      then have "c # cs = (c # a) @ sub @ b" by simp
      then show ?thesis by blast
    qed
  next
    assume "\<exists>a b. c # cs = a @ sub @ b"
    then obtain a b where eq: "c # cs = a @ sub @ b" by blast
    show "py_in sub (c # cs)"
    proof (cases a)
      case Nil
      with eq have "prefix sub (c # cs)" by (simp add: prefix_def)
      then show ?thesis by simp
    next
      case (Cons x a')
      with eq have "cs = a' @ sub @ b" by simp
      with Cons.IH have "py_in sub cs" by blast
      then show ?thesis by simp
    qed
  qed
qed

lemma performance_context_mentions_issues:
  "py_in ''performance issues'' (parsed_response.technical_context (performance_response summ))"
proof -
  have "parsed_response.technical_context (performance_response summ) =
      (''The '' @ summ @ '' is experiencing '') @ ''performance issues'' @
      ('' that negatively impact user experience.'' @
       '' This could be due to inefficient code, excessive network requests,'' @
       '' unoptimized assets, or server-side bottlenecks.'' @
       '' Fixing this will improve user satisfaction and potentially increase conversion rates.'')"
    by (simp add: performance_response_def)
  then show ?thesis
    unfolding py_in_iff by blast
qed

text \<open>
  Claim C4. The fallback generator lower-cases the summary and the description and
  tests whether one of the keywords slow, lag, performance, speed, loading, timeout
  occurs in either. If so, it returns the performance record: its technical context
  contains "performance issues" and its acceptance criteria are the four fixed entries
  (load under 2 seconds, response within 100ms, 60fps, consistency across browsers).
  Otherwise it returns the generic record, with exactly four fixed criteria.
\<close>

theorem fallback_branches:
  "let summ = py_lower (dict_get d ''summary'' ''No Title'');
       desc = py_lower (dict_get d ''description'' []);
       r = generate_better_fallback_response d
   in if list_ex (\<lambda>keyword. py_in keyword summ \<or> py_in keyword desc)
           [''slow'', ''lag'', ''performance'', ''speed'', ''loading'', ''timeout'']
      then r = performance_response summ \<and>
           py_in ''performance issues'' (parsed_response.technical_context r) \<and>
           parsed_response.acceptance_criteria r =
             [''Page should load in under 2 seconds on standard connection speeds'',
              ''UI interactions (clicks, scrolls, inputs) should respond within 100ms'',
              ''All animations should run at 60fps without visual stuttering'',
              ''Performance should be consistent across supported browsers and devices'']
      else r = generic_response summ \<and>
           length (parsed_response.acceptance_criteria r) = 4 \<and>
           parsed_response.acceptance_criteria r =
             [''The functionality should work as expected in all supported browsers'',
              ''The implementation should meet all business requirements'',
              ''The solution should be thoroughly tested with automated tests'',
              ''The solution should maintain or improve current performance metrics'']"
proof -
  have perf: "parsed_response.acceptance_criteria (performance_response x) =
             [''Page should load in under 2 seconds on standard connection speeds'',
              ''UI interactions (clicks, scrolls, inputs) should respond within 100ms'',
              ''All animations should run at 60fps without visual stuttering'',
              ''Performance should be consistent across supported browsers and devices'']" for x
    by (simp add: performance_response_def)
  have gen: "parsed_response.acceptance_criteria (generic_response x) =
             [''The functionality should work as expected in all supported browsers'',
              ''The implementation should meet all business requirements'',
              ''The solution should be thoroughly tested with automated tests'',
              ''The solution should maintain or improve current performance metrics'']" for x
    by (simp add: generic_response_def)
  show ?thesis
    unfolding Let_def generate_better_fallback_response_def is_performance_issue_def
      performance_keywords_def
    by (simp only: perf gen performance_context_mentions_issues if_True if_False
        simp_thms list.size length_Cons split: if_split) simp
qed

theorem fallback_branches_witness:
  "py_in ''performance issues''
     (parsed_response.technical_context
        (generate_better_fallback_response [''summary'' \<mapsto> ''Checkout page is very slow'']))
   \<and> parsed_response.acceptance_criteria
        (generate_better_fallback_response [''summary'' \<mapsto> ''Add dark mode'']) =
       [''The functionality should work as expected in all supported browsers'',
        ''The implementation should meet all business requirements'',
        ''The solution should be thoroughly tested with automated tests'',
        ''The solution should maintain or improve current performance metrics'']"
proof -
  let ?slow = "[''summary'' \<mapsto> ''Checkout page is very slow'']"
  let ?dark = "[''summary'' \<mapsto> ''Add dark mode'']"
  have slow: "list_ex (\<lambda>keyword.
        py_in keyword (py_lower (dict_get ?slow ''summary'' ''No Title'')) \<or>
        py_in keyword (py_lower (dict_get ?slow ''description'' [])))
        [''slow'', ''lag'', ''performance'', ''speed'', ''loading'', ''timeout'']"
    by code_simp
  have dark: "\<not> list_ex (\<lambda>keyword.
        py_in keyword (py_lower (dict_get ?dark ''summary'' ''No Title'')) \<or>
        py_in keyword (py_lower (dict_get ?dark ''description'' [])))
        [''slow'', ''lag'', ''performance'', ''speed'', ''loading'', ''timeout'']"
    by code_simp
  from fallback_branches [of ?slow, unfolded Let_def if_P [OF slow]]
  have "py_in ''performance issues''
     (parsed_response.technical_context (generate_better_fallback_response ?slow))"
    by (rule conjunct1 [OF conjunct2])
  moreover from fallback_branches [of ?dark, unfolded Let_def if_not_P [OF dark]]
  have "parsed_response.acceptance_criteria (generate_better_fallback_response ?dark) =
       [''The functionality should work as expected in all supported browsers'',
        ''The implementation should meet all business requirements'',
        ''The solution should be thoroughly tested with automated tests'',
        ''The solution should maintain or improve current performance metrics'']"
    by (rule conjunct2 [OF conjunct2])
  ultimately show ?thesis by (rule conjI)
qed

section \<open>The orchestration when the model call fails\<close>

lemma select_response_failed:
  "r \<in> {Raises, Response None, Response (Some [])} \<Longrightarrow>
   select_response r t = generate_better_fallback_response (ticket_dict t)"
  by (auto simp: select_response_def)

lemma rewrite_ticket_key: "rewritten_ticket.key (rewrite_ticket r t) = ticket.key t"
  by (simp add: rewrite_ticket_def assemble_ticket_def)

text \<open>
  Claim C3. For a non-empty list of tickets the orchestration returns a list, never an
  error, whatever the model does: one rewritten ticket per input ticket, in the order
  of the input (the keys agree position by position), each built from the result of
  its own call. Where that call raised, or returned no text or an empty text, the
  rewritten ticket is the one assembled from the fallback generator applied to that
  ticket's summary and description (the empty string when the description is absent).
\<close>

theorem model_failure_uses_fallback:
  assumes "ts \<noteq> []"
  shows "\<exists>out m'. rewrite_tickets generate m ts = (Inr out, m') \<and>
     length out = length ts \<and>
     map rewritten_ticket.key out = map ticket.key ts \<and>
     (\<forall>k<length ts. out ! k = rewrite_ticket (model_results generate m ts ! k) (ts ! k)) \<and>
     (\<forall>k<length ts.
        model_results generate m ts ! k \<in> {Raises, Response None, Response (Some [])} \<longrightarrow>
        out ! k = assemble_ticket (ts ! k)
          (generate_better_fallback_response
             [''summary'' \<mapsto> summary (ts ! k),
              ''description'' \<mapsto> (case description (ts ! k) of None \<Rightarrow> [] | Some d \<Rightarrow> d)]))"
proof -
  obtain res m' where run: "rewrite_tickets generate m ts = (res, m')"
    by (cases "rewrite_tickets generate m ts")
  with rewrite_tickets_Inr [OF assms, of generate m]
  obtain out where res: "res = Inr out" by simp
  note run = run [unfolded res]
  note nth = rewrite_tickets_nth [OF run]
  have keys: "map rewritten_ticket.key out = map ticket.key ts"
    by (rule nth_equalityI) (simp_all add: nth rewrite_ticket_key)
  have "out ! k = assemble_ticket (ts ! k)
          (generate_better_fallback_response
             [''summary'' \<mapsto> summary (ts ! k),
              ''description'' \<mapsto> (case description (ts ! k) of None \<Rightarrow> [] | Some d \<Rightarrow> d)])"
    if "k < length ts"
      and "model_results generate m ts ! k \<in> {Raises, Response None, Response (Some [])}" for k
    using nth(2) [OF that(1)] select_response_failed [OF that(2), of "ts ! k"]
    by (simp add: rewrite_ticket_def ticket_dict_def)
  with run nth keys show ?thesis by blast
qed

theorem model_failure_uses_fallback_witness:
  "demo_tickets \<noteq> [] \<and>
   (\<exists>out m'. rewrite_tickets demo_model 0 demo_tickets = (Inr out, m') \<and>
      length out = 2 \<and>
      map rewritten_ticket.key out = [''K-1'', ''K-2''] \<and>
      model_results demo_model 0 demo_tickets ! 0 = Raises \<and>
      out ! 0 = assemble_ticket (demo_tickets ! 0)
        (generate_better_fallback_response
           [''summary'' \<mapsto> ''Checkout page is very slow'', ''description'' \<mapsto> []]))"
proof -
  from model_failure_uses_fallback [OF demo_tickets_nonempty, of demo_model 0]
  obtain out m' where run: "rewrite_tickets demo_model 0 demo_tickets = (Inr out, m')"
    and len: "length out = length demo_tickets"
    and keys: "map rewritten_ticket.key out = map ticket.key demo_tickets"
    and fb: "\<And>k. k < length demo_tickets \<Longrightarrow>
        model_results demo_model 0 demo_tickets ! k \<in> {Raises, Response None, Response (Some [])} \<Longrightarrow>
        out ! k = assemble_ticket (demo_tickets ! k)
          (generate_better_fallback_response
             [''summary'' \<mapsto> summary (demo_tickets ! k),
              ''description'' \<mapsto> (case description (demo_tickets ! k) of None \<Rightarrow> [] | Some d \<Rightarrow> d)])"
    by blast
  have r0: "model_results demo_model 0 demo_tickets ! 0 = Raises"
    by (simp add: demo_results)
  have "out ! 0 = assemble_ticket (demo_tickets ! 0)
        (generate_better_fallback_response
           [''summary'' \<mapsto> ''Checkout page is very slow'', ''description'' \<mapsto> []])"
    using fb [of 0] r0 by (simp add: demo_tickets_def)
  with run len keys r0 demo_tickets_nonempty show ?thesis
    by (auto simp: demo_tickets_def)
qed

section \<open>The fields of a rewritten ticket\<close>

text \<open>
  Claim C6. Every rewritten ticket that the orchestration returns has the summary of
  its input ticket as original title, the user story of its parsed response as
  rewritten title, and as rewritten description that user story, two newline
  characters, and the technical context of the parsed response.
\<close>

theorem rewritten_ticket_fields:
  assumes "rewrite_tickets generate m ts = (Inr out, m')" and "k < length out"
  shows "let parsed = select_response (model_results generate m ts ! k) (ts ! k)
         in original_title (out ! k) = summary (ts ! k) \<and>
            rewritten_title (out ! k) = user_story parsed \<and>
            rewritten_description (out ! k) =
              user_story parsed @ [NL, NL] @ parsed_response.technical_context parsed"
proof -
  from rewrite_tickets_nth [OF assms(1)] assms(2)
  have "out ! k = rewrite_ticket (model_results generate m ts ! k) (ts ! k)"
    by simp
  then show ?thesis
    by (simp add: Let_def rewrite_ticket_def assemble_ticket_def)
qed

lemma demo_parsed_texts:
  "user_story (select_response (model_results demo_model 0 demo_tickets ! 1) (demo_tickets ! 1)) =
     ''As a user, I want this issue resolved so that I can work efficiently.''"
  "parsed_response.technical_context
     (select_response (model_results demo_model 0 demo_tickets ! 1) (demo_tickets ! 1)) =
     ''This ticket addresses a technical issue that impacts user experience.''"
  by code_simp+

theorem rewritten_ticket_fields_witness:
  "\<exists>out m'. rewrite_tickets demo_model 0 demo_tickets = (Inr out, m') \<and> 1 < length out \<and>
     original_title (out ! 1) = ''Add Dark Mode'' \<and>
     rewritten_title (out ! 1) =
       ''As a user, I want this issue resolved so that I can work efficiently.'' \<and>
     rewritten_description (out ! 1) =
       ''As a user, I want this issue resolved so that I can work efficiently.'' @ [NL, NL] @
       ''This ticket addresses a technical issue that impacts user experience.''"
proof -
  obtain out m' where run: "rewrite_tickets demo_model 0 demo_tickets = (Inr out, m')"
    and len: "length out = 2"
    by (rule demo_run)
  from len have k: "1 < length out" by simp
  have "summary (demo_tickets ! 1) = ''Add Dark Mode''"
    by (simp add: demo_tickets_def)
  with rewritten_ticket_fields [OF run k, unfolded Let_def demo_parsed_texts]
  have "original_title (out ! 1) = ''Add Dark Mode'' \<and>
     rewritten_title (out ! 1) =
       ''As a user, I want this issue resolved so that I can work efficiently.'' \<and>
     rewritten_description (out ! 1) =
       ''As a user, I want this issue resolved so that I can work efficiently.'' @ [NL, NL] @
       ''This ticket addresses a technical issue that impacts user experience.''"
    by simp
  with run k show ?thesis by blast
qed

section \<open>Numbering the criteria of the fallback twice\<close>

lemma number_performance_twice:
  "number_criteria (number_criteria
     (parsed_response.acceptance_criteria (performance_response summ))) =
   number_criteria (parsed_response.acceptance_criteria (performance_response summ))"
proof -
  have "number_criteria (number_criteria
       [''Page should load in under 2 seconds on standard connection speeds'',
        ''UI interactions (clicks, scrolls, inputs) should respond within 100ms'',
        ''All animations should run at 60fps without visual stuttering'',
        ''Performance should be consistent across supported browsers and devices'']) =
     number_criteria
       [''Page should load in under 2 seconds on standard connection speeds'',
        ''UI interactions (clicks, scrolls, inputs) should respond within 100ms'',
        ''All animations should run at 60fps without visual stuttering'',
        ''Performance should be consistent across supported browsers and devices'']"
    by code_simp
  then show ?thesis by (simp add: performance_response_def)
qed

lemma number_generic_twice:
  "number_criteria (number_criteria
     (parsed_response.acceptance_criteria (generic_response summ))) =
   number_criteria (parsed_response.acceptance_criteria (generic_response summ))"
proof -
  have "number_criteria (number_criteria
       [''The functionality should work as expected in all supported browsers'',
        ''The implementation should meet all business requirements'',
        ''The solution should be thoroughly tested with automated tests'',
        ''The solution should maintain or improve current performance metrics'']) =
     number_criteria
       [''The functionality should work as expected in all supported browsers'',
        ''The implementation should meet all business requirements'',
        ''The solution should be thoroughly tested with automated tests'',
        ''The solution should maintain or improve current performance metrics'']"
    by code_simp
  then show ?thesis by (simp add: generic_response_def)
qed

text \<open>
  Claim C8. On the acceptance criteria of the fallback generator the numbering step is
  idempotent: for every ticket dictionary, numbering the numbered list again gives the
  same list of strings.
\<close>

theorem renumbering_idempotent_on_fallback:
  "number_criteria (number_criteria
     (parsed_response.acceptance_criteria (generate_better_fallback_response d))) =
   number_criteria (parsed_response.acceptance_criteria (generate_better_fallback_response d))"
  by (simp add: generate_better_fallback_response_def Let_def number_performance_twice
      number_generic_twice)

theorem renumbering_idempotent_on_fallback_witness:
  "number_criteria (number_criteria
     (parsed_response.acceptance_criteria
        (generate_better_fallback_response [''summary'' \<mapsto> ''Add dark mode'']))) =
     [''1. The functionality should work as expected in all supported browsers'',
      ''2. The implementation should meet all business requirements'',
      ''3. The solution should be thoroughly tested with automated tests'',
      ''4. The solution should maintain or improve current performance metrics'']"
proof -
  have "number_criteria
     (parsed_response.acceptance_criteria
        (generate_better_fallback_response [''summary'' \<mapsto> ''Add dark mode''])) =
     [''1. The functionality should work as expected in all supported browsers'',
      ''2. The implementation should meet all business requirements'',
      ''3. The solution should be thoroughly tested with automated tests'',
      ''4. The solution should maintain or improve current performance metrics'']"
    by code_simp
  with renumbering_idempotent_on_fallback [of "[''summary'' \<mapsto> ''Add dark mode'']"]
  show ?thesis by simp
qed

section \<open>Properties of the prompt builder\<close>

text \<open>
  Claim C9, as stated, fails: the orchestration passes \<open>ticket.description or ""\<close>, so
  the dictionary always has a description, and for a ticket without description the
  prompt holds the empty string in the place of the description; the text
  "No Description" occurs nowhere in it.
\<close>

theorem absent_description_prompt_counterexample:
  "description (demo_tickets ! 0) = None \<and>
   create_prompt (ticket_dict (demo_tickets ! 0)) =
     prompt_intro @ ''Checkout page is very slow'' @ prompt_middle @ [] @ prompt_instructions \<and>
   \<not> py_in ''No Description'' (create_prompt (ticket_dict (demo_tickets ! 0)))"
proof -
  have "description (demo_tickets ! 0) = None"
    by (simp add: demo_tickets_def)
  moreover have "create_prompt (ticket_dict (demo_tickets ! 0)) =
     prompt_intro @ ''Checkout page is very slow'' @ prompt_middle @ [] @ prompt_instructions"
    by (simp add: demo_tickets_def create_prompt_def ticket_dict_def dict_get_def)
  moreover have "\<not> py_in ''No Description''
     (prompt_intro @ ''Checkout page is very slow'' @ prompt_middle @ [] @ prompt_instructions)"
    by (simp add: prompt_intro_def prompt_middle_def prompt_instructions_def)
  ultimately show ?thesis by (simp only: simp_thms)
qed

text \<open>
  Claim C9, amended. The prompt builder embeds "No Description" when its dictionary has
  no description entry, and "No Title" when it has no summary entry. The orchestration
  always passes both entries, the ticket's summary and its description or the empty
  string, so the prompt of a ticket without description embeds the empty string in the
  place of the description.
\<close>

theorem create_prompt_defaults:
  "(d ''description'' = None \<longrightarrow>
      create_prompt d = prompt_intro @ dict_get d ''summary'' ''No Title'' @ prompt_middle @
        ''No Description'' @ prompt_instructions)
   \<and> (d ''summary'' = None \<longrightarrow>
      create_prompt d = prompt_intro @ ''No Title'' @ prompt_middle @
        dict_get d ''description'' ''No Description'' @ prompt_instructions)
   \<and> create_prompt (ticket_dict t) =
       prompt_intro @ summary t @ prompt_middle @
       (case description t of None \<Rightarrow> [] | Some text \<Rightarrow> text) @ prompt_instructions"
  by (simp add: create_prompt_def dict_get_def ticket_dict_def)

theorem create_prompt_defaults_witness:
  "Map.empty ''description'' = (None :: string option) \<and>
   Map.empty ''summary'' = (None :: string option) \<and>
   create_prompt Map.empty =
     prompt_intro @ ''No Title'' @ prompt_middle @ ''No Description'' @ prompt_instructions \<and>
   py_in ''No Description'' (create_prompt Map.empty)"
proof -
  have "py_in ''No Description''
     (prompt_intro @ ''No Title'' @ prompt_middle @ ''No Description'' @ prompt_instructions)"
    unfolding py_in_iff append_assoc [symmetric] by blast
  with create_prompt_defaults [of Map.empty] show ?thesis
    by (simp add: dict_get_def)
qed

section \<open>The summary in the fallback texts\<close>

lemma py_in_middle: "py_in sub (a @ sub @ b)"
  unfolding py_in_iff by blast

lemma py_lower_char_idem: "py_lower_char (py_lower_char c) = py_lower_char c"
proof -
  define n where "n = (of_char c :: nat)"
  show ?thesis
  proof (cases "(65 \<le> n \<and> n \<le> 90) \<or> (192 \<le> n \<and> n \<le> 222 \<and> n \<noteq> 215)")
    case True
    then have up: "py_lower_char c = char_of (n + 32)"
      by (simp add: py_lower_char_def Let_def n_def)
    from True have val: "(of_char (char_of (n + 32)) :: nat) = n + 32"
      by auto
    have "py_lower_char (char_of (n + 32)) = char_of (n + 32)"
      unfolding py_lower_char_def Let_def val using True by auto
    with up show ?thesis by simp
  next
    case False
    then have "py_lower_char c = c"
      unfolding n_def py_lower_char_def Let_def by (simp only: if_False)
    then show ?thesis by simp
  qed
qed

lemma py_lower_idem: "py_lower (py_lower s) = py_lower s"
  by (simp add: py_lower_def py_lower_char_idem)

text \<open>
  Claim C10, as stated, fails. For the summary "Add Dark Mode" no performance keyword
  occurs, and the technical context of the generic record is a fixed sentence: the
  lower-cased summary does not occur in it. And the original summary can occur in the
  text: the summary "A" occurs in "As a user, ...".
\<close>

theorem fallback_context_counterexample:
  "py_lower ''Add Dark Mode'' = ''add dark mode'' \<and>
   \<not> py_in ''add dark mode''
       (parsed_response.technical_context
          (generate_better_fallback_response [''summary'' \<mapsto> ''Add Dark Mode''])) \<and>
   py_in ''A'' (user_story (generate_better_fallback_response [''summary'' \<mapsto> ''A'']))"
  by code_simp

text \<open>
  Claim C10, amended. The fallback generator builds its texts from the lower-cased
  summary alone. The user story always embeds the lower-cased summary between fixed
  words. The technical context embeds it in the performance branch; in the generic
  branch it is a fixed sentence without the summary. The original casing is not used:
  the result for a summary is the result for its lower-cased form.
\<close>

theorem fallback_embeds_lowered_summary:
  "let summ = py_lower (dict_get d ''summary'' ''No Title'');
       desc = py_lower (dict_get d ''description'' []);
       r = generate_better_fallback_response d
   in py_in summ (user_story r) \<and>
      (if list_ex (\<lambda>keyword. py_in keyword summ \<or> py_in keyword desc)
            [''slow'', ''lag'', ''performance'', ''speed'', ''loading'', ''timeout'']
       then user_story r = ''As a user, I want the '' @ summ @
              '' to respond quickly so that I can complete my tasks efficiently without frustration.'' \<and>
            py_in summ (parsed_response.technical_context r) \<and>
            parsed_response.technical_context r = ''The '' @ summ @
              '' is experiencing performance issues that negatively impact user experience.'' @
              '' This could be due to inefficient code, excessive network requests,'' @
              '' unoptimized assets, or server-side bottlenecks.'' @
              '' Fixing this will improve user satisfaction and potentially increase conversion rates.''
       else user_story r = ''As a user, I want to '' @ summ @
              '' so that I can achieve my goals efficiently.'' \<and>
            parsed_response.technical_context r =
              ''This ticket addresses a technical issue that impacts user experience and business goals.'' @
              '' Proper implementation will ensure system reliability and user satisfaction.'') \<and>
      generate_better_fallback_response (d(''summary'' \<mapsto> summ)) = r"
proof -
  define summ where "summ = py_lower (dict_get d ''summary'' ''No Title'')"
  define desc where "desc = py_lower (dict_get d ''description'' [])"
  have in_perf_story: "py_in summ (user_story (performance_response summ))"
    unfolding performance_response_def parsed_response.simps by (rule py_in_middle)
  have in_perf_context: "py_in summ (parsed_response.technical_context (performance_response summ))"
    unfolding performance_response_def parsed_response.simps by (rule py_in_middle)
  have in_gen_story: "py_in summ (user_story (generic_response summ))"
    unfolding generic_response_def parsed_response.simps by (rule py_in_middle)
  have same: "generate_better_fallback_response (d(''summary'' \<mapsto> summ)) =
      generate_better_fallback_response d"
    by (simp add: generate_better_fallback_response_def Let_def dict_get_def summ_def
        py_lower_idem)
  show ?thesis
    unfolding Let_def summ_def [symmetric] desc_def [symmetric] same
    unfolding generate_better_fallback_response_def Let_def summ_def [symmetric]
      desc_def [symmetric] is_performance_issue_def performance_keywords_def
    using in_perf_story in_perf_context in_gen_story
    by (simp add: performance_response_def generic_response_def)
qed

theorem fallback_embeds_lowered_summary_witness:
  "user_story (generate_better_fallback_response [''summary'' \<mapsto> ''Add Dark Mode'']) =
     ''As a user, I want to add dark mode so that I can achieve my goals efficiently.'' \<and>
   generate_better_fallback_response [''summary'' \<mapsto> ''add dark mode''] =
     generate_better_fallback_response [''summary'' \<mapsto> ''Add Dark Mode'']"
proof -
  let ?d = "[''summary'' \<mapsto> ''Add Dark Mode'']"
  have lower: "py_lower (dict_get ?d ''summary'' ''No Title'') = ''add dark mode''"
    by code_simp
  have generic: "\<not> list_ex (\<lambda>keyword. py_in keyword ''add dark mode'' \<or>
        py_in keyword (py_lower (dict_get ?d ''description'' [])))
        [''slow'', ''lag'', ''performance'', ''speed'', ''loading'', ''timeout'']"
    by code_simp
  note fact = fallback_embeds_lowered_summary [of ?d, unfolded Let_def lower if_not_P [OF generic]]
  from fact show ?thesis by simp
qed

section \<open>Properties of the tracker sync document\<close>

lemma add_paragraphs_eq:
  "add_paragraphs acc paras =
     acc @ map (\<lambda>para. Paragraph [AdfText (py_strip para)])
             (filter (\<lambda>para. py_strip para \<noteq> []) paras)"
  by (induction paras arbitrary: acc) auto

lemma add_list_items_eq:
  "add_list_items acc cs = acc @ map (\<lambda>criterion. ListItem [Paragraph [AdfText criterion]]) cs"
  by (induction cs arbitrary: acc) auto

lemma length_two: "length xs = 2 \<Longrightarrow> \<exists>a b. xs = [a, b]"
  by (cases xs; cases "tl xs") auto

lemma length_three: "length xs = 3 \<Longrightarrow> \<exists>a b c. xs = [a, b, c]"
  by (cases xs; cases "tl xs"; cases "tl (tl xs)") auto

text \<open>
  Claim C7. The document built for a rewritten ticket is, in order: one paragraph block
  for every piece of the description between blank lines that is not empty after
  stripping, holding the stripped piece; then the heading "Acceptance Criteria" of
  level 2; then one bulleted list with one item per criterion, the criterion string as
  it is. With two such paragraphs and three criteria the document has exactly two
  paragraph blocks, the heading, and one bulleted list of exactly three items.
\<close>

theorem build_adf_content_blocks:
  "build_adf_content t =
     map (\<lambda>para. Paragraph [AdfText (py_strip para)])
       (filter (\<lambda>para. py_strip para \<noteq> []) (py_split [NL, NL] (rewritten_description t))) @
     [Heading 2 [AdfText ''Acceptance Criteria''],
      BulletList (map (\<lambda>criterion. ListItem [Paragraph [AdfText criterion]])
        (acceptance_criteria t))]
   \<and> (length (filter (\<lambda>para. py_strip para \<noteq> [])
                 (py_split [NL, NL] (rewritten_description t))) = 2 \<and>
        length (acceptance_criteria t) = 3 \<longrightarrow>
        (\<exists>p1 p2 c1 c2 c3.
           filter (\<lambda>para. py_strip para \<noteq> []) (py_split [NL, NL] (rewritten_description t)) =
             [p1, p2] \<and>
           acceptance_criteria t = [c1, c2, c3] \<and>
           build_adf_content t =
             [Paragraph [AdfText (py_strip p1)], Paragraph [AdfText (py_strip p2)],
              Heading 2 [AdfText ''Acceptance Criteria''],
              BulletList [ListItem [Paragraph [AdfText c1]], ListItem [Paragraph [AdfText c2]],
                          ListItem [Paragraph [AdfText c3]]]]))"
proof -
  let ?paras = "filter (\<lambda>para. py_strip para \<noteq> []) (py_split [NL, NL] (rewritten_description t))"
  have doc: "build_adf_content t =
     map (\<lambda>para. Paragraph [AdfText (py_strip para)]) ?paras @
     [Heading 2 [AdfText ''Acceptance Criteria''],
      BulletList (map (\<lambda>criterion. ListItem [Paragraph [AdfText criterion]])
        (acceptance_criteria t))]"
    by (simp add: build_adf_content_def Let_def add_paragraphs_eq add_list_items_eq)
  have "\<exists>p1 p2 c1 c2 c3. ?paras = [p1, p2] \<and> acceptance_criteria t = [c1, c2, c3] \<and>
           build_adf_content t =
             [Paragraph [AdfText (py_strip p1)], Paragraph [AdfText (py_strip p2)],
              Heading 2 [AdfText ''Acceptance Criteria''],
              BulletList [ListItem [Paragraph [AdfText c1]], ListItem [Paragraph [AdfText c2]],
                          ListItem [Paragraph [AdfText c3]]]]"
    if two: "length ?paras = 2" and three: "length (acceptance_criteria t) = 3"
  proof -
    from length_two [OF two] obtain p1 p2 where paras: "?paras = [p1, p2]" by blast
    from length_three [OF three] obtain c1 c2 c3 where cs: "acceptance_criteria t = [c1, c2, c3]"
      by blast
    have "build_adf_content t =
             [Paragraph [AdfText (py_strip p1)], Paragraph [AdfText (py_strip p2)],
              Heading 2 [AdfText ''Acceptance Criteria''],
              BulletList [ListItem [Paragraph [AdfText c1]], ListItem [Paragraph [AdfText c2]],
                          ListItem [Paragraph [AdfText c3]]]]"
      unfolding doc paras cs by simp
    with paras cs show ?thesis by blast
  qed
  with doc show ?thesis by blast
qed

theorem build_adf_content_blocks_witness:
  "length (filter (\<lambda>para. py_strip para \<noteq> [])
      (py_split [NL, NL] (rewritten_description demo_rewritten))) = 2 \<and>
   length (acceptance_criteria demo_rewritten) = 3 \<and>
   build_adf_content demo_rewritten =
     [Paragraph [AdfText ''As a user, I want exports.''],
      Paragraph [AdfText ''Exports are missing.''],
      Heading 2 [AdfText ''Acceptance Criteria''],
      BulletList [ListItem [Paragraph [AdfText ''1. CSV'']],
                  ListItem [Paragraph [AdfText ''2. PDF'']],
                  ListItem [Paragraph [AdfText ''3. Tested'']]]]"
proof -
  have paras: "filter (\<lambda>para. py_strip para \<noteq> [])
      (py_split [NL, NL] (rewritten_description demo_rewritten)) =
      [''As a user, I want exports.'', ''Exports are missing.'']"
    by code_simp
  have strips: "py_strip ''As a user, I want exports.'' = ''As a user, I want exports.''"
    "py_strip ''Exports are missing.'' = ''Exports are missing.''"
    by code_simp+
  have cs: "acceptance_criteria demo_rewritten = [''1. CSV'', ''2. PDF'', ''3. Tested'']"
    by (simp add: demo_rewritten_def)
  from build_adf_content_blocks [of demo_rewritten] paras cs strips
  show ?thesis by auto
qed

section \<open>The parser on an output of the three-section format\<close>

lemma py_split_Nil: "sep \<noteq> [] \<Longrightarrow> py_split sep [] = [[]]"
  by (simp add: py_split.simps)

lemma py_split_Cons:
  "sep \<noteq> [] \<Longrightarrow> py_split sep (c # cs) =
     (if prefix sep (c # cs) then [] # py_split sep (drop (length sep) (c # cs))
      else cons_first c (py_split sep cs))"
  by (subst py_split.simps) simp

lemma py_split_absent:
  "sep \<noteq> [] \<Longrightarrow> \<not> py_in sep s \<Longrightarrow> py_split sep s = [s]"
proof (induction s)
  case Nil
  then show ?case by (simp add: py_split_Nil)
next
  case (Cons c cs)
  then show ?case by (simp add: py_split_Cons cons_first_def)
qed

lemma prefix_shorter:
  "prefix xs (ys @ zs) \<Longrightarrow> length xs \<le> length ys \<Longrightarrow> prefix xs ys"
  by (metis prefix_length_prefix prefix_def)

lemma py_split_append:
  assumes "sep \<noteq> []" and "\<not> py_in sep (a @ butlast sep)"
  shows "py_split sep (a @ sep @ b) = a # py_split sep b"
  using assms(2)
proof (induction a)
  case Nil
  from assms(1) have "sep @ b \<noteq> []" by simp
  then show ?case
    using assms(1) by (subst py_split.simps) simp
next
  case (Cons c a)
  from Cons.prems have no_prefix: "\<not> prefix sep (c # a @ butlast sep)"
    and rest: "\<not> py_in sep (a @ butlast sep)"
    by auto
  have "c # a @ sep @ b = (c # a @ butlast sep) @ (last sep # b)"
    using assms(1) by simp
  moreover have "length sep \<le> length (c # a @ butlast sep)"
    by simp
  ultimately have "\<not> prefix sep (c # a @ sep @ b)"
    using no_prefix prefix_shorter by metis
  then have "py_split sep ((c # a) @ sep @ b) = cons_first c (py_split sep (a @ sep @ b))"
    using assms(1) by (simp add: py_split_Cons)
  with Cons.IH [OF rest] show ?case
    by (simp add: cons_first_def)
qed

lemma py_replace_absent:
  "old \<noteq> [] \<Longrightarrow> \<not> py_in old s \<Longrightarrow> py_replace old new s = s"
proof (induction s)
  case Nil
  then show ?case by (simp add: py_replace.simps)
next
  case (Cons c cs)
  then have "\<not> prefix old (c # cs)" and "py_replace old new cs = cs" by auto
  with Cons.prems(1) show ?case
    by (subst py_replace.simps) simp
qed

lemma py_replace_prefix:
  "old \<noteq> [] \<Longrightarrow> py_replace old new (old @ s) = new @ py_replace old new s"
  by (subst py_replace.simps) simp

lemma py_rstrip_id: "s \<noteq> [] \<Longrightarrow> \<not> py_isspace (last s) \<Longrightarrow> py_rstrip s = s"
proof -
  assume "s \<noteq> []" and "\<not> py_isspace (last s)"
  then have "dropWhile py_isspace (rev s) = rev s"
    by (cases "rev s") (auto simp: last_rev [symmetric] hd_rev)
  then show ?thesis by (simp add: py_rstrip_def)
qed

lemma py_lstrip_id: "s \<noteq> [] \<Longrightarrow> \<not> py_isspace (hd s) \<Longrightarrow> py_lstrip s = s"
  by (cases s) (simp_all add: py_lstrip_def)

lemma py_strip_id:
  "s \<noteq> [] \<Longrightarrow> \<not> py_isspace (hd s) \<Longrightarrow> \<not> py_isspace (last s) \<Longrightarrow> py_strip s = s"
  by (simp add: py_strip_def py_rstrip_id py_lstrip_id)

lemma py_strip_newline:
  "s \<noteq> [] \<Longrightarrow> \<not> py_isspace (hd s) \<Longrightarrow> \<not> py_isspace (last s) \<Longrightarrow> py_strip (NL # s) = s"
proof -
  assume s: "s \<noteq> []" "\<not> py_isspace (hd s)" "\<not> py_isspace (last s)"
  then have "py_rstrip (NL # s) = NL # s"
    by (intro py_rstrip_id) simp_all
  moreover have "py_lstrip (NL # s) = py_lstrip s"
    by (simp add: py_lstrip_def py_isspace_def)
  ultimately show ?thesis using s by (simp add: py_strip_def py_lstrip_id)
qed

lemma py_in_pair_snoc:
  "py_in [a, b] (s @ [c]) \<longleftrightarrow> py_in [a, b] s \<or> (s \<noteq> [] \<and> last s = a \<and> c = b)"
proof (induction s)
  case Nil
  then show ?case by simp
next
  case (Cons x xs)
  show ?case
  proof (cases xs)
    case Nil
    then show ?thesis by auto
  next
    case (Cons y ys)
    with Cons.IH show ?thesis by auto
  qed
qed

lemma story_block:
  assumes "plain_block us"
  shows "py_strip (''USER STORY:'' @ NL # us) = ''USER STORY:'' @ NL # us"
    and "py_in ''USER STORY:'' (''USER STORY:'' @ NL # us)"
    and "py_strip (py_replace ''USER STORY:'' [] (''USER STORY:'' @ NL # us)) = us"
    and "\<not> py_in [NL, NL] ((''USER STORY:'' @ NL # us) @ [NL])"
proof -
  from assms have ne: "us \<noteq> []" and hd: "\<not> py_isspace (hd us)" and last: "\<not> py_isspace (last us)"
    and blank: "\<not> py_in [NL, NL] us" and marker: "\<not> py_in ''USER STORY:'' us"
    by (simp_all add: plain_block_def)
  from ne obtain u us' where us: "us = u # us'" by (cases us) auto
  with hd have u: "u \<noteq> NL" by (auto simp: py_isspace_def)
  from last have l: "last us \<noteq> NL" by (auto simp: py_isspace_def)
  show "py_strip (''USER STORY:'' @ NL # us) = ''USER STORY:'' @ NL # us"
    using ne last by (intro py_strip_id) (simp_all add: py_isspace_def)
  show "py_in ''USER STORY:'' (''USER STORY:'' @ NL # us)"
    by simp
  have "py_replace ''USER STORY:'' [] (NL # us) = NL # us"
    using marker by (intro py_replace_absent) simp_all
  with py_replace_prefix [of "''USER STORY:''" "[]" "NL # us"]
  have "py_replace ''USER STORY:'' [] (''USER STORY:'' @ NL # us) = NL # us"
    by simp
  then show "py_strip (py_replace ''USER STORY:'' [] (''USER STORY:'' @ NL # us)) = us"
    using ne hd last by (simp add: py_strip_newline)
  have "\<not> py_in [NL, NL] (us @ [NL])"
    using blank l ne by (simp add: py_in_pair_snoc)
  then show "\<not> py_in [NL, NL] ((''USER STORY:'' @ NL # us) @ [NL])"
    using u by (simp add: us)
qed

lemma context_block:
  assumes "plain_block tc"
  shows "py_strip (''TECHNICAL CONTEXT:'' @ NL # tc) = ''TECHNICAL CONTEXT:'' @ NL # tc"
    and "\<not> py_in ''USER STORY:'' (''TECHNICAL CONTEXT:'' @ NL # tc)"
    and "\<not> py_in ''ACCEPTANCE CRITERIA:'' (''TECHNICAL CONTEXT:'' @ NL # tc)"
    and "py_in ''TECHNICAL CONTEXT:'' (''TECHNICAL CONTEXT:'' @ NL # tc)"
    and "py_strip (py_replace ''TECHNICAL CONTEXT:'' [] (''TECHNICAL CONTEXT:'' @ NL # tc)) = tc"
    and "\<not> py_in [NL, NL] (''TECHNICAL CONTEXT:'' @ NL # tc)"
proof -
  from assms have ne: "tc \<noteq> []" and hd: "\<not> py_isspace (hd tc)" and last: "\<not> py_isspace (last tc)"
    and blank: "\<not> py_in [NL, NL] tc" and m1: "\<not> py_in ''USER STORY:'' tc"
    and m2: "\<not> py_in ''ACCEPTANCE CRITERIA:'' tc" and m3: "\<not> py_in ''TECHNICAL CONTEXT:'' tc"
    by (simp_all add: plain_block_def)
  from ne obtain u tc' where tc: "tc = u # tc'" by (cases tc) auto
  with hd have u: "u \<noteq> NL" by (auto simp: py_isspace_def)
  show "py_strip (''TECHNICAL CONTEXT:'' @ NL # tc) = ''TECHNICAL CONTEXT:'' @ NL # tc"
    using ne last by (intro py_strip_id) (simp_all add: py_isspace_def)
  show "\<not> py_in ''USER STORY:'' (''TECHNICAL CONTEXT:'' @ NL # tc)"
    using m1 by simp
  show "\<not> py_in ''ACCEPTANCE CRITERIA:'' (''TECHNICAL CONTEXT:'' @ NL # tc)"
    using m2 by simp
  show "py_in ''TECHNICAL CONTEXT:'' (''TECHNICAL CONTEXT:'' @ NL # tc)"
    by simp
  have "py_replace ''TECHNICAL CONTEXT:'' [] (NL # tc) = NL # tc"
    using m3 by (intro py_replace_absent) simp_all
  with py_replace_prefix [of "''TECHNICAL CONTEXT:''" "[]" "NL # tc"]
  have "py_replace ''TECHNICAL CONTEXT:'' [] (''TECHNICAL CONTEXT:'' @ NL # tc) = NL # tc"
    by simp
  then show "py_strip (py_replace ''TECHNICAL CONTEXT:'' [] (''TECHNICAL CONTEXT:'' @ NL # tc)) = tc"
    using ne hd last by (simp add: py_strip_newline)
  show "\<not> py_in [NL, NL] (''TECHNICAL CONTEXT:'' @ NL # tc)"
    using blank u by (simp add: tc)
qed


lemma criteria_block:
  "py_strip (''ACCEPTANCE CRITERIA:'' @ [NL] @ ''1. Foo'' @ [NL] @ ''2. Bar'') =
     ''ACCEPTANCE CRITERIA:'' @ [NL] @ ''1. Foo'' @ [NL] @ ''2. Bar''"
  "\<not> py_in ''USER STORY:'' (''ACCEPTANCE CRITERIA:'' @ [NL] @ ''1. Foo'' @ [NL] @ ''2. Bar'')"
  "py_in ''ACCEPTANCE CRITERIA:'' (''ACCEPTANCE CRITERIA:'' @ [NL] @ ''1. Foo'' @ [NL] @ ''2. Bar'')"
  "numbered_lines (py_strip (py_replace ''ACCEPTANCE CRITERIA:'' []
     (''ACCEPTANCE CRITERIA:'' @ [NL] @ ''1. Foo'' @ [NL] @ ''2. Bar''))) = [''1. Foo'', ''2. Bar'']"
  "\<not> py_in [NL, NL] ((''ACCEPTANCE CRITERIA:'' @ [NL] @ ''1. Foo'' @ [NL] @ ''2. Bar'') @ [NL])"
  "format_criteria [''1. Foo'', ''2. Bar''] = [''Foo'', ''Bar'']"
  by code_simp+

lemma three_section_blocks:
  assumes "plain_block us" and "plain_block tc"
  shows "py_split [NL, NL] (three_section_output us tc) =
     [''USER STORY:'' @ NL # us,
      ''ACCEPTANCE CRITERIA:'' @ [NL] @ ''1. Foo'' @ [NL] @ ''2. Bar'',
      ''TECHNICAL CONTEXT:'' @ NL # tc]"
proof -
  let ?s1 = "''USER STORY:'' @ NL # us"
  let ?s2 = "''ACCEPTANCE CRITERIA:'' @ [NL] @ ''1. Foo'' @ [NL] @ ''2. Bar''"
  let ?s3 = "''TECHNICAL CONTEXT:'' @ NL # tc"
  have out: "three_section_output us tc = ?s1 @ [NL, NL] @ ?s2 @ [NL, NL] @ ?s3"
    by (simp add: three_section_output_def)
  have "py_split [NL, NL] ?s3 = [?s3]"
    using context_block(6) [OF assms(2)] by (intro py_split_absent) simp_all
  moreover have "py_split [NL, NL] (?s2 @ [NL, NL] @ ?s3) = ?s2 # py_split [NL, NL] ?s3"
    using criteria_block(5) by (intro py_split_append) simp_all
  moreover have "py_split [NL, NL] (?s1 @ [NL, NL] @ ?s2 @ [NL, NL] @ ?s3) =
      ?s1 # py_split [NL, NL] (?s2 @ [NL, NL] @ ?s3)"
    using story_block(4) [OF assms(1)] by (intro py_split_append) simp_all
  ultimately show ?thesis
    unfolding out by (simp only:)
qed

text \<open>
  Claim C5. On a model output made of a \<open>USER STORY:\<close> block, an
  \<open>ACCEPTANCE CRITERIA:\<close> block with the lines \<open>1. Foo\<close> and \<open>2. Bar\<close>, and a
  \<open>TECHNICAL CONTEXT:\<close> block, separated by blank lines, the parser returns the text
  of the user-story block, the criteria \<open>Foo\<close> and \<open>Bar\<close> without their numbers, and
  the text of the technical-context block. The two texts are any plain blocks: not
  empty, without white space at the ends, without a blank line and without a marker
  inside; they may span several lines.
\<close>

theorem parse_three_sections:
  assumes "plain_block us" and "plain_block tc"
  shows "parse_ai_response
     (''USER STORY:'' @ [NL] @ us @ [NL, NL] @
      ''ACCEPTANCE CRITERIA:'' @ [NL] @ ''1. Foo'' @ [NL] @ ''2. Bar'' @ [NL, NL] @
      ''TECHNICAL CONTEXT:'' @ [NL] @ tc) =
     \<lparr>user_story = us, acceptance_criteria = [''Foo'', ''Bar''], technical_context = tc\<rparr>"
proof -
  let ?s1 = "''USER STORY:'' @ NL # us"
  let ?s2 = "''ACCEPTANCE CRITERIA:'' @ [NL] @ ''1. Foo'' @ [NL] @ ''2. Bar''"
  let ?s3 = "''TECHNICAL CONTEXT:'' @ NL # tc"
  from assms have ne: "us \<noteq> []" "tc \<noteq> []"
    by (simp_all add: plain_block_def)
  have s1: "parse_section initial_state ?s1 =
      \<lparr>current_section = Some UserStory, story = us, criteria = [], context_text = []\<rparr>"
    unfolding parse_section_def Let_def story_block(1) [OF assms(1)]
    using story_block(2,3) [OF assms(1)] ne by (simp add: initial_state_def)
  have s2: "parse_section
      \<lparr>current_section = Some UserStory, story = us, criteria = [], context_text = []\<rparr> ?s2 =
      \<lparr>current_section = Some AcceptanceCriteria, story = us, criteria = [''1. Foo'', ''2. Bar''],
       context_text = []\<rparr>"
    unfolding parse_section_def Let_def criteria_block(1)
    using criteria_block(2,3,4) by (simp only: ) simp
  have s3: "parse_section
      \<lparr>current_section = Some AcceptanceCriteria, story = us, criteria = [''1. Foo'', ''2. Bar''],
       context_text = []\<rparr> ?s3 =
      \<lparr>current_section = Some TechnicalContext, story = us, criteria = [''1. Foo'', ''2. Bar''],
       context_text = tc\<rparr>"
    unfolding parse_section_def Let_def context_block(1) [OF assms(2)]
    using context_block(2,3,4,5) [OF assms(2)] ne by simp
  have "scan_sections (three_section_output us tc) =
      \<lparr>current_section = Some TechnicalContext, story = us, criteria = [''1. Foo'', ''2. Bar''],
       context_text = tc\<rparr>"
    unfolding scan_sections_def three_section_blocks [OF assms]
    by (simp only: foldl.simps s1 s2 s3)
  then have "parse_ai_response (three_section_output us tc) =
     \<lparr>user_story = us, acceptance_criteria = [''Foo'', ''Bar''], technical_context = tc\<rparr>"
    using ne by (simp add: parse_ai_response_def Let_def criteria_block(6))
  then show ?thesis
    by (simp add: three_section_output_def)
qed


theorem parse_three_sections_witness:
  "plain_block (''As a shopper,'' @ [NL] @ ''I want a fast checkout.'') \<and>
   plain_block ''The cart query is slow.'' \<and>
   parse_ai_response
     (''USER STORY:'' @ [NL] @ (''As a shopper,'' @ [NL] @ ''I want a fast checkout.'') @ [NL, NL] @
      ''ACCEPTANCE CRITERIA:'' @ [NL] @ ''1. Foo'' @ [NL] @ ''2. Bar'' @ [NL, NL] @
      ''TECHNICAL CONTEXT:'' @ [NL] @ ''The cart query is slow.'') =
     \<lparr>user_story = ''As a shopper,'' @ [NL] @ ''I want a fast checkout.'',
      acceptance_criteria = [''Foo'', ''Bar''],
      technical_context = ''The cart query is slow.''\<rparr>"
proof -
  have us: "plain_block (''As a shopper,'' @ [NL] @ ''I want a fast checkout.'')"
    by code_simp
  have tc: "plain_block ''The cart query is slow.''"
    by code_simp
  from us tc parse_three_sections [OF us tc] show ?thesis
    by (simp only: simp_thms)
qed

end
